theory Spec2Isabelle
  imports Complex_Main
begin

section \<open>Report assembly of the MNE-BIDS pipeline\<close>

text \<open>
  A shallow embedding of \<^verbatim>\<open>scripts/report/_01_make_reports.py\<close>. Every source function
  that raises, logs, draws into a figure, appends to a report or writes a file is a
  function from a state to a result and a new state; an exception is the left injection
  of the result. Names follow the source, without the leading underscore.

  What is kept: the control flow, which artifacts are read and when, which items a report
  receives and in which order, which figures are open, which files are written, and the
  numbers that are plotted. What has no counterpart: arguments that only tune how an item
  is rendered (tags, captions, \<^verbatim>\<open>psd\<close>, \<^verbatim>\<open>n_time_points\<close>, colours), and the BIDS entities
  that are the same in every path of a run (acquisition, recording, space, datatype,
  root). Floating-point numbers are real numbers, so there is no NaN and no rounding.
\<close>

subsection \<open>Exceptions and sequencing\<close>

datatype error =
  ArtifactMissing | KeyError | ValueError | IndexError | AttributeError | TypeError
  | AssertionError

type_synonym ('s, 'a) prog = "'s \<Rightarrow> (error + 'a) \<times> 's"

definition ok :: "'a \<Rightarrow> ('s, 'a) prog" where
  "ok x = (\<lambda>s. (Inr x, s))"

definition throw :: "error \<Rightarrow> ('s, 'a) prog" where
  "throw e = (\<lambda>s. (Inl e, s))"

definition bnd :: "('s, 'a) prog \<Rightarrow> ('a \<Rightarrow> ('s, 'b) prog) \<Rightarrow> ('s, 'b) prog" where
  "bnd m f = (\<lambda>s. case m s of (Inl e, s') \<Rightarrow> (Inl e, s') | (Inr x, s') \<Rightarrow> f x s')"

definition seq :: "('s, 'a) prog \<Rightarrow> ('s, 'b) prog \<Rightarrow> ('s, 'b) prog" where
  "seq m n = bnd m (\<lambda>_. n)"

definition run_if :: "bool \<Rightarrow> ('s, unit) prog \<Rightarrow> ('s, unit) prog" where
  "run_if b m = (if b then m else ok ())"

text \<open>A \<^verbatim>\<open>for\<close> loop over a list, and a block of statements run one after the other.\<close>

fun foreach :: "'a list \<Rightarrow> ('a \<Rightarrow> ('s, unit) prog) \<Rightarrow> ('s, unit) prog" where
  "foreach [] f = ok ()"
| "foreach (x # xs) f = seq (f x) (foreach xs f)"

fun block :: "('s, unit) prog list \<Rightarrow> ('s, unit) prog" where
  "block [] = ok ()"
| "block (m # ms) = seq m (block ms)"

text \<open>A loop that appends one result per element to a list.\<close>

fun collect_each :: "'a list \<Rightarrow> ('a \<Rightarrow> ('s, 'b) prog) \<Rightarrow> ('s, 'b list) prog" where
  "collect_each [] f = ok []"
| "collect_each (x # xs) f = bnd (f x) (\<lambda>y. bnd (collect_each xs f) (\<lambda>ys. ok (y # ys)))"

subsection \<open>Arrays\<close>

text \<open>
  A numpy array of up to three dimensions, as nested lists (rows are taken to have equal
  lengths). Reductions raise on an empty axis.
\<close>

datatype ndarray = A0 real | A1 "real list" | A2 "real list list" | A3 "real list list list"

definition squeeze_inner :: "real list list \<Rightarrow> ndarray" where
  "squeeze_inner xss =
     (if list_all (\<lambda>xs. length xs = 1) xss then A1 (map hd xss) else A2 xss)"

definition squeeze_rows :: "real list list \<Rightarrow> ndarray" where
  "squeeze_rows xss =
     (case xss of
        [xs] \<Rightarrow> (case xs of [x] \<Rightarrow> A0 x | _ \<Rightarrow> A1 xs)
      | _ \<Rightarrow> squeeze_inner xss)"

fun squeeze :: "ndarray \<Rightarrow> ndarray" where
  "squeeze (A0 x) = A0 x"
| "squeeze (A1 xs) = (case xs of [x] \<Rightarrow> A0 x | _ \<Rightarrow> A1 xs)"
| "squeeze (A2 xss) = squeeze_rows xss"
| "squeeze (A3 xsss) =
     (case xsss of
        [xss] \<Rightarrow> squeeze_rows xss
      | _ \<Rightarrow>
          if list_all (\<lambda>xss. length xss = 1) xsss then squeeze_inner (map hd xsss)
          else if list_all (list_all (\<lambda>xs. length xs = 1)) xsss
            then A2 (map (map hd) xsss)
          else A3 xsss)"

fun atleast_1d :: "ndarray \<Rightarrow> ndarray" where
  "atleast_1d (A0 x) = A1 [x]"
| "atleast_1d a = a"

fun flat :: "ndarray \<Rightarrow> real list" where
  "flat (A0 x) = [x]"
| "flat (A1 xs) = xs"
| "flat (A2 xss) = concat xss"
| "flat (A3 xsss) = concat (map concat xsss)"

text \<open>\<^verbatim>\<open>a.item()\<close>: the one element of an array of size one.\<close>

definition item :: "ndarray \<Rightarrow> ('s, real) prog" where
  "item a = (case flat a of [x] \<Rightarrow> ok x | _ \<Rightarrow> throw ValueError)"

definition np_min :: "ndarray \<Rightarrow> ('s, real) prog" where
  "np_min a = (case flat a of [] \<Rightarrow> throw ValueError | x # xs \<Rightarrow> ok (fold min xs x))"

definition np_max :: "ndarray \<Rightarrow> ('s, real) prog" where
  "np_max a = (case flat a of [] \<Rightarrow> throw ValueError | x # xs \<Rightarrow> ok (fold max xs x))"

text \<open>\<^verbatim>\<open>np.diag\<close>: the diagonal of a matrix, or the diagonal matrix of a vector.\<close>

definition diagonal :: "real list list \<Rightarrow> real list" where
  "diagonal m =
     map (\<lambda>i. m ! i ! i) [0..<min (length m) (case m of [] \<Rightarrow> 0 | r # _ \<Rightarrow> length r)]"

definition np_diag :: "ndarray \<Rightarrow> ('s, ndarray) prog" where
  "np_diag a =
     (case a of
        A1 v \<Rightarrow>
          ok (A2 (map (\<lambda>i. map (\<lambda>j. if i = j then v ! i else 0) [0..<length v])
                    [0..<length v]))
      | A2 m \<Rightarrow> ok (A1 (diagonal m))
      | _ \<Rightarrow> throw ValueError)"

text \<open>Reductions along the first axis: \<^verbatim>\<open>a.mean(axis=0)\<close>, \<^verbatim>\<open>a.max(axis=0)\<close>, \<^verbatim>\<open>a.min(axis=0)\<close>.\<close>

definition reduce_axis0 :: "(real list \<Rightarrow> real) \<Rightarrow> ndarray \<Rightarrow> ('s, ndarray) prog" where
  "reduce_axis0 g a =
     (case a of
        A0 x \<Rightarrow> throw ValueError
      | A1 xs \<Rightarrow> if xs = [] then throw ValueError else ok (A0 (g xs))
      | A2 xss \<Rightarrow>
          if xss = [] then throw ValueError
          else ok (A1 (map (\<lambda>j. g (map (\<lambda>r. r ! j) xss)) [0..<length (hd xss)]))
      | A3 xsss \<Rightarrow>
          if xsss = [] then throw ValueError
          else ok (A2 (map (\<lambda>i. map (\<lambda>j. g (map (\<lambda>f. f ! i ! j) xsss))
                                   [0..<length (hd (hd xsss))])
                         [0..<length (hd xsss)])))"

definition average :: "real list \<Rightarrow> real" where
  "average xs = sum_list xs / real (length xs)"

definition largest :: "real list \<Rightarrow> real" where
  "largest xs = fold max (tl xs) (hd xs)"

definition smallest :: "real list \<Rightarrow> real" where
  "smallest xs = fold min (tl xs) (hd xs)"

definition mean_axis0 :: "ndarray \<Rightarrow> ('s, ndarray) prog" where
  "mean_axis0 = reduce_axis0 average"

definition max_axis0 :: "ndarray \<Rightarrow> ('s, ndarray) prog" where
  "max_axis0 = reduce_axis0 largest"

definition min_axis0 :: "ndarray \<Rightarrow> ('s, ndarray) prog" where
  "min_axis0 = reduce_axis0 smallest"

text \<open>
  Elementwise arithmetic with numpy's broadcasting: the operands are aligned at their
  last axis, and an axis of length one is stretched.
\<close>

fun collect :: "(error + 'a) list \<Rightarrow> error + 'a list" where
  "collect [] = Inr []"
| "collect (r # rs) =
     (case r of
        Inl e \<Rightarrow> Inl e
      | Inr x \<Rightarrow> (case collect rs of Inl e \<Rightarrow> Inl e | Inr xs \<Rightarrow> Inr (x # xs)))"

definition broadcast ::
  "('a \<Rightarrow> 'b \<Rightarrow> error + 'c) \<Rightarrow> 'a list \<Rightarrow> 'b list \<Rightarrow> error + 'c list" where
  "broadcast g xs ys =
     (if length xs = length ys then collect (map2 g xs ys)
      else if length xs = 1 then collect (map (g (hd xs)) ys)
      else if length ys = 1 then collect (map (\<lambda>x. g x (hd ys)) xs)
      else Inl ValueError)"

fun rank :: "ndarray \<Rightarrow> nat" where
  "rank (A0 x) = 0"
| "rank (A1 xs) = 1"
| "rank (A2 xss) = 2"
| "rank (A3 xsss) = 3"

fun as_3d :: "ndarray \<Rightarrow> real list list list" where
  "as_3d (A0 x) = [[[x]]]"
| "as_3d (A1 xs) = [[xs]]"
| "as_3d (A2 xss) = [xss]"
| "as_3d (A3 xsss) = xsss"

definition of_3d :: "nat \<Rightarrow> real list list list \<Rightarrow> ndarray" where
  "of_3d r xsss =
     (if r = 0 then A0 (hd (hd (hd xsss)))
      else if r = 1 then A1 (hd (hd xsss))
      else if r = 2 then A2 (hd xsss)
      else A3 xsss)"

definition np_binop :: "(real \<Rightarrow> real \<Rightarrow> real) \<Rightarrow> ndarray \<Rightarrow> ndarray \<Rightarrow> ('s, ndarray) prog" where
  "np_binop f a b =
     (case broadcast (broadcast (broadcast (\<lambda>x y. Inr (f x y)))) (as_3d a) (as_3d b) of
        Inl e \<Rightarrow> throw e
      | Inr xsss \<Rightarrow> ok (of_3d (max (rank a) (rank b)) xsss))"

definition np_add :: "ndarray \<Rightarrow> ndarray \<Rightarrow> ('s, ndarray) prog" where
  "np_add = np_binop (+)"

definition np_sub :: "ndarray \<Rightarrow> ndarray \<Rightarrow> ('s, ndarray) prog" where
  "np_sub = np_binop (-)"

subsection \<open>Decoding artifacts\<close>

text \<open>
  What \<^verbatim>\<open>loadmat\<close> returns: a dictionary from names to arrays. The entry \<^verbatim>\<open>clusters\<close> is
  an array of structures, each with the times the cluster spans and its p-value.
\<close>

record cluster =
  c_times :: "real list"
  c_p_value :: real

datatype mat_value = Arr ndarray | Structs "cluster list"

type_synonym mat = "string \<Rightarrow> mat_value option"

definition get_arr :: "mat \<Rightarrow> string \<Rightarrow> ('s, ndarray) prog" where
  "get_arr d k =
     (case d k of
        None \<Rightarrow> throw KeyError
      | Some (Arr a) \<Rightarrow> ok a
      | Some (Structs cs) \<Rightarrow> throw TypeError)"

definition get_structs :: "mat \<Rightarrow> string \<Rightarrow> ('s, cluster list) prog" where
  "get_structs d k =
     (case d k of
        None \<Rightarrow> throw KeyError
      | Some (Structs cs) \<Rightarrow> ok cs
      | Some (Arr a) \<Rightarrow> (if flat a = [] then ok [] else throw IndexError))"

subsection \<open>Figures, reports and the state of a run\<close>

text \<open>
  A figure is the list of what was drawn into its axes, in drawing order. Where the source
  formats a number into a label, the element holds the number.
\<close>

datatype element =
    SetYLim real real
  | AxHLine real "string option"
  | AxVLine real
  | FillBetweenX "real \<times> real" real real "real option"
  | FillBetween ndarray ndarray ndarray string
  | Plot ndarray ndarray "string option"
  | TextN ndarray
  | SetXLabel string "real option"
  | SetYLabel string "real option"
  | Legend
  | ImShow ndarray ndarray
  | ColorBar string
  | CatPlot string "(string \<times> string) list" "ndarray list"
  | Library string

datatype figure = Figure (fig_num: nat) (elements: "element list")

datatype content =
  RawData | FigureContent | Events | Epochs | ICA | Evokeds | BEM | Trans | Covariance
  | STC | HTML | CSS | Code | SysInfo

datatype item =
  Item (item_kind: content) (item_title: string) (item_section: "string option")
    (item_figs: "figure list")

datatype report = Report (report_title: string) (items: "item list")

record bids_path =
  subject :: string
  session :: "string option"
  task :: "string option"
  run :: "string option"
  processing :: "string option"
  suffix :: "string option"
  extension :: "string option"

datatype level = INFO | WARNING | ERROR

text \<open>
  The state: the report objects allocated so far (a report is referred to by its index,
  so that two names for one report see the same items), the figures matplotlib keeps
  open, the log, and the report files written.
\<close>

record world =
  reports :: "report list"
  fig_count :: nat
  open_figs :: "figure list"
  logged :: "(level \<times> string) list"
  saved :: "(bids_path \<times> report) list"

record cfg =
  cfg_task :: "string option"
  task_is_rest :: bool
  runs :: "string option list"
  find_noisy_channels_meg :: bool
  spatial_filter :: "string option"
  conditions :: "string list option"
  all_contrasts :: "string list"
  decoding_contrasts :: "(string \<times> string) list"
  time_frequency_conditions :: "string list option"
  decode :: bool
  decoding_metric :: string
  decoding_time_generalization :: bool
  n_boot :: nat
  cluster_permutation_p_threshold :: real
  inverse_method :: string
  fs_subject :: "string option"
  eog_channels :: "string list option"
  proc :: "string option"
  get_subjects :: "string list"

subsection \<open>Drawing\<close>

definition draw :: "element \<Rightarrow> (element list, unit) prog" where
  "draw el = (\<lambda>ax. (Inr (), ax @ [el]))"

definition get_ylim :: "(element list, real \<times> real) prog" where
  "get_ylim =
     (\<lambda>ax. (Inr (fold (\<lambda>el lim. case el of SetYLim lo hi \<Rightarrow> (lo, hi) | _ \<Rightarrow> lim) ax (0, 1)), ax))"

text \<open>
  \<^verbatim>\<open>plt.subplots\<close> followed by the drawing code of a plotting function: the new figure is
  registered with matplotlib when it is created, so it stays open, half drawn, when the
  drawing code raises.
\<close>

definition subplots :: "(element list, unit) prog \<Rightarrow> (world, figure) prog" where
  "subplots drawing =
     (\<lambda>w. case drawing [] of
        (r, ax) \<Rightarrow>
          (let fig = Figure (fig_count w) ax;
               w' = w\<lparr>fig_count := fig_count w + 1, open_figs := open_figs w @ [fig]\<rparr>
           in (case r of Inl e \<Rightarrow> (Inl e, w') | Inr u \<Rightarrow> (Inr fig, w'))))"

definition plt_close :: "figure \<Rightarrow> (world, unit) prog" where
  "plt_close fig =
     (\<lambda>w. (Inr (), w\<lparr>open_figs := filter (\<lambda>f. fig_num f \<noteq> fig_num fig) (open_figs w)\<rparr>))"

definition plt_close_all :: "(world, unit) prog" where
  "plt_close_all = (\<lambda>w. (Inr (), w\<lparr>open_figs := []\<rparr>))"

definition label_time_by_time ::
  "real \<Rightarrow> string option \<Rightarrow> string option \<Rightarrow> (element list, unit) prog" where
  "label_time_by_time decim xlabel ylabel =
     (let extra = (if decim > 1 then Some decim else None)
      in block
        [case xlabel of None \<Rightarrow> ok () | Some l \<Rightarrow> draw (SetXLabel l extra),
         case ylabel of None \<Rightarrow> ok () | Some l \<Rightarrow> draw (SetYLabel l extra)])"

definition score_label :: "string \<Rightarrow> string" where
  "score_label metric =
     ''Score ('' @ (if metric = ''roc_auc'' then ''ROC AUC'' else metric) @ '')''"

definition mark_time_zero :: "ndarray \<Rightarrow> element list \<Rightarrow> (element list, unit) prog" where
  "mark_time_zero time_pts els =
     bnd (np_min time_pts) (\<lambda>lo.
       if lo < 0
       then bnd (np_max time_pts) (\<lambda>hi. run_if (0 < hi) (block (map draw els)))
       else ok ())"

subsection \<open>Time-by-time decoding scores of one subject\<close>

definition plot_time_by_time_decoding_scores ::
  "ndarray \<Rightarrow> ndarray \<Rightarrow> string \<Rightarrow> bool \<Rightarrow> real \<Rightarrow> (world, figure) prog" where
  "plot_time_by_time_decoding_scores time_pts cross_val_scores metric time_generalization decim =
     bnd (mean_axis0 cross_val_scores) (\<lambda>mean_scores.
     bnd (max_axis0 cross_val_scores) (\<lambda>max_scores.
     bnd (min_axis0 cross_val_scores) (\<lambda>min_scores.
     bnd (if time_generalization then np_diag mean_scores else ok mean_scores) (\<lambda>mean_scores.
     bnd (if time_generalization then np_diag max_scores else ok max_scores) (\<lambda>max_scores.
     bnd (if time_generalization then np_diag min_scores else ok min_scores) (\<lambda>min_scores.
     subplots (block
       [draw (AxHLine 0.5 (Some ''chance'')),
        mark_time_zero time_pts [AxVLine 0],
        draw (FillBetween time_pts min_scores max_scores ''range [min, max]''),
        draw (Plot time_pts mean_scores (Some ''mean'')),
        label_time_by_time decim (Some ''Time (s)'') None,
        draw (SetYLabel (score_label metric) None),
        draw (SetYLim (- 0.025) 1.025),
        draw Legend])))))))"

subsection \<open>Grand-averaged time-by-time decoding scores\<close>

text \<open>
  The loop over the clusters of the permutation test, with the counter
  \<^verbatim>\<open>n_significant_clusters_plotted\<close>: only the first highlighted span carries the label.
\<close>

fun highlight_clusters :: "cfg \<Rightarrow> cluster list \<Rightarrow> nat \<Rightarrow> (element list, unit) prog" where
  "highlight_clusters cfg [] n = ok ()"
| "highlight_clusters cfg (c # cs) n =
     (if c_p_value c \<ge> cluster_permutation_p_threshold cfg
      then highlight_clusters cfg cs n
      else
        bnd get_ylim (\<lambda>y.
          if c_times c = [] then throw IndexError
          else
            seq (draw (FillBetweenX y (hd (c_times c)) (last (c_times c))
                         (if n = 0 then Some (cluster_permutation_p_threshold cfg) else None)))
                (highlight_clusters cfg cs (n + 1))))"

definition plot_time_by_time_decoding_scores_gavg :: "cfg \<Rightarrow> mat \<Rightarrow> (world, figure) prog" where
  "plot_time_by_time_decoding_scores_gavg cfg decoding_data =
     bnd (get_arr decoding_data ''times'') (\<lambda>a_times.
     bnd (get_arr decoding_data ''mean'') (\<lambda>a_mean.
     bnd (get_arr decoding_data ''mean_se'') (\<lambda>a_se.
     bnd (np_sub (squeeze a_mean) (squeeze a_se)) (\<lambda>se_lower.
     bnd (np_add (squeeze a_mean) (squeeze a_se)) (\<lambda>se_upper.
     bnd (get_arr decoding_data ''mean_ci_lower'') (\<lambda>a_ci_lower.
     bnd (get_arr decoding_data ''mean_ci_upper'') (\<lambda>a_ci_upper.
     bnd (bnd (get_arr decoding_data ''decim'') item) (\<lambda>decim.
     let time_pts = squeeze a_times; tg = decoding_time_generalization cfg in
     bnd (if tg then np_diag (squeeze a_mean) else ok (squeeze a_mean)) (\<lambda>mean_scores.
     bnd (if tg then np_diag se_lower else ok se_lower) (\<lambda>se_lower.
     bnd (if tg then np_diag se_upper else ok se_upper) (\<lambda>se_upper.
     bnd (if tg then np_diag (squeeze a_ci_lower) else ok (squeeze a_ci_lower)) (\<lambda>ci_lower.
     bnd (if tg then np_diag (squeeze a_ci_upper) else ok (squeeze a_ci_upper)) (\<lambda>ci_upper.
     bnd (get_structs decoding_data ''clusters'') (\<lambda>clusters.
     subplots (block
       [draw (SetYLim (- 0.025) 1.025),
        highlight_clusters cfg clusters 0,
        draw (AxHLine 0.5 (Some ''chance'')),
        mark_time_zero time_pts [AxVLine 0],
        draw (FillBetween time_pts ci_lower ci_upper ''95% confidence interval''),
        draw (Plot time_pts mean_scores (Some ''mean'')),
        draw (Plot time_pts se_lower (Some ''mean +/- standard error'')),
        draw (Plot time_pts se_upper None),
        bnd (get_arr decoding_data ''N'') (\<lambda>n. draw (TextN (squeeze n))),
        label_time_by_time decim (Some ''Time (s)'') None,
        draw (SetYLabel (score_label (decoding_metric cfg)) None),
        draw Legend])))))))))))))))"

subsection \<open>Other figures of the decoding sections\<close>

definition plot_full_epochs_decoding_scores ::
  "(string \<times> string) list \<Rightarrow> ndarray list \<Rightarrow> string \<Rightarrow> string \<Rightarrow> (world, figure) prog" where
  "plot_full_epochs_decoding_scores contrasts scores metric kind =
     (if scores = [] then throw IndexError
      else
        subplots (block
          [draw (SetYLabel (score_label metric) None),
           if kind = ''grand-average''
           then block [draw (CatPlot ''box'' contrasts scores), draw (Library ''swarmplot'')]
           else block [draw (CatPlot ''swarm'' contrasts scores), draw (Library ''mean score'')],
           draw (AxHLine 0.5 None),
           draw (SetXLabel [] None)]))"

definition first_last :: "ndarray \<Rightarrow> ('s, ndarray) prog" where
  "first_last a =
     (case a of
        A1 xs \<Rightarrow> if xs = [] then throw IndexError else ok (A1 [hd xs, last xs])
      | A0 x \<Rightarrow> throw IndexError
      | _ \<Rightarrow> throw ValueError)"

definition plot_time_by_time_decoding_t_values :: "mat \<Rightarrow> (world, figure) prog" where
  "plot_time_by_time_decoding_t_values decoding_data =
     bnd (get_arr decoding_data ''cluster_all_times'') (\<lambda>a_times.
     bnd (get_arr decoding_data ''cluster_all_t_values'') (\<lambda>a_t_values.
     bnd (get_arr decoding_data ''cluster_t_threshold'') (\<lambda>t_threshold.
     bnd (get_arr decoding_data ''decim'') (\<lambda>decim.
     let all_times = squeeze a_times; all_t_values = squeeze a_t_values in
     subplots (block
       [draw (Plot all_times all_t_values (Some ''observed t-values'')),
        bnd (item t_threshold) (\<lambda>t. draw (AxHLine t (Some ''threshold''))),
        bnd (get_arr decoding_data ''N'') (\<lambda>n. draw (TextN (squeeze n))),
        bnd (item decim) (\<lambda>d. label_time_by_time d (Some ''Time (s)'') None),
        draw (SetYLabel ''t-value'' None),
        draw Legend,
        bnd (np_min all_t_values) (\<lambda>lo.
        bnd (np_max all_t_values) (\<lambda>hi.
          if lo < 0 \<and> hi > 0 then draw (Library ''center the y axis around 0'')
          else if lo > 0 \<and> hi > 0 then draw (SetYLim 0 hi)
          else if lo < 0 \<and> hi < 0 then draw (SetYLim lo 0)
          else ok ()))])))))"

definition plot_decoding_time_generalization ::
  "mat \<Rightarrow> string \<Rightarrow> string \<Rightarrow> (world, figure) prog" where
  "plot_decoding_time_generalization decoding_data metric kind =
     bnd (get_arr decoding_data ''times'') (\<lambda>a_times.
     bnd (bnd (get_arr decoding_data ''decim'') item) (\<lambda>decim.
     bnd (if kind = ''single-subject''
          then bnd (get_arr decoding_data ''scores'') mean_axis0
          else get_arr decoding_data ''mean'') (\<lambda>mean_scores.
     let time_pts = squeeze a_times in
     subplots (block
       [bnd (first_last time_pts) (\<lambda>extent. draw (ImShow mean_scores extent)),
        mark_time_zero time_pts [AxVLine 0, AxHLine 0 None],
        bnd (first_last time_pts) (\<lambda>ends. draw (Plot ends ends None)),
        label_time_by_time decim (Some ''Testing time (s)'') (Some ''Training time (s)''),
        draw (ColorBar (score_label metric))]))))"

subsection \<open>Artifacts and helpers of other modules\<close>

text \<open>
  A stored artifact, as far as the report code looks into it: the event names of an
  epochs file, the comments of the evoked responses, the dictionary of
  a decoding file, the excluded components of an ICA, the descriptions of the projectors,
  and the number of figures the bad-channel scores of one run give.
\<close>

record epochs =
  event_names :: "string list"

datatype artifact =
    RawFile
  | EpochsFile epochs
  | EvokedsFile "string list"
  | MatFile mat
  | IcaFile "nat list"
  | ProjFile "string list"
  | ScoresFile nat
  | OtherFile

text \<open>
  The environment of a run: the derivatives directory, the variable
  \<^verbatim>\<open>MNE_BIDS_STUDY_CONFIG\<close>, and the functions the script imports from modules that are
  not part of this development, each as the function it is called with the configuration
  fixed (\<^verbatim>\<open>_update_for_splits\<close> is given the path and \<^verbatim>\<open>allow_missing\<close>).
\<close>

record env =
  files :: "bids_path \<Rightarrow> artifact option"
  study_config :: "string option"
  readable :: "string \<Rightarrow> bool"
  bem_available :: "string option \<Rightarrow> bool"
  update_for_splits :: "bids_path \<Rightarrow> bool \<Rightarrow> error + bids_path"
  get_noise_cov_bids_path :: "string \<Rightarrow> string option \<Rightarrow> bids_path"
  sanitize_cond_name :: "string \<Rightarrow> string"
  basename :: "bids_path \<Rightarrow> string"
  count_events :: "string option \<Rightarrow> error + unit"

definition lift :: "error + 'a \<Rightarrow> ('s, 'a) prog" where
  "lift r = (\<lambda>s. (r, s))"

definition read_file :: "env \<Rightarrow> bids_path \<Rightarrow> ('s, artifact) prog" where
  "read_file env p = (case files env p of None \<Rightarrow> throw ArtifactMissing | Some f \<Rightarrow> ok f)"

definition loadmat :: "env \<Rightarrow> bids_path \<Rightarrow> ('s, mat) prog" where
  "loadmat env p =
     bnd (read_file env p) (\<lambda>f. case f of MatFile d \<Rightarrow> ok d | _ \<Rightarrow> throw ValueError)"

definition read_epochs :: "env \<Rightarrow> bids_path \<Rightarrow> ('s, epochs) prog" where
  "read_epochs env p =
     bnd (read_file env p) (\<lambda>f. case f of EpochsFile e \<Rightarrow> ok e | _ \<Rightarrow> throw ValueError)"

definition read_evokeds :: "env \<Rightarrow> bids_path \<Rightarrow> ('s, string list) prog" where
  "read_evokeds env p =
     bnd (read_file env p) (\<lambda>f. case f of EvokedsFile es \<Rightarrow> ok es | _ \<Rightarrow> throw ValueError)"

definition read_ica :: "env \<Rightarrow> bids_path \<Rightarrow> ('s, nat list) prog" where
  "read_ica env p =
     bnd (read_file env p) (\<lambda>f. case f of IcaFile ex \<Rightarrow> ok ex | _ \<Rightarrow> throw ValueError)"

definition read_proj :: "env \<Rightarrow> bids_path \<Rightarrow> ('s, string list) prog" where
  "read_proj env p =
     bnd (read_file env p) (\<lambda>f. case f of ProjFile ds \<Rightarrow> ok ds | _ \<Rightarrow> throw ValueError)"

definition read_raw_fif :: "env \<Rightarrow> bids_path \<Rightarrow> ('s, unit) prog" where
  "read_raw_fif env p =
     bnd (read_file env p) (\<lambda>f. case f of RawFile \<Rightarrow> ok () | _ \<Rightarrow> throw ValueError)"

definition read_scores :: "env \<Rightarrow> bids_path \<Rightarrow> ('s, nat) prog" where
  "read_scores env p =
     bnd (read_file env p) (\<lambda>f. case f of ScoresFile n \<Rightarrow> ok n | _ \<Rightarrow> throw ValueError)"

definition path_exists :: "env \<Rightarrow> bids_path \<Rightarrow> bool" where
  "path_exists env p = (files env p \<noteq> None)"

subsection \<open>Logging and the report object\<close>

definition logger_info :: "string \<Rightarrow> (world, unit) prog" where
  "logger_info msg = (\<lambda>w. (Inr (), w\<lparr>logged := logged w @ [(INFO, msg)]\<rparr>))"

definition logger_warning :: "string \<Rightarrow> (world, unit) prog" where
  "logger_warning msg = (\<lambda>w. (Inr (), w\<lparr>logged := logged w @ [(WARNING, msg)]\<rparr>))"

text \<open>\<^verbatim>\<open>mne.Report(title=...)\<close> allocates a report; the methods \<^verbatim>\<open>add_*\<close> append to it in place.\<close>

definition new_report :: "string \<Rightarrow> (world, nat) prog" where
  "new_report t = (\<lambda>w. (Inr (length (reports w)), w\<lparr>reports := reports w @ [Report t []]\<rparr>))"

definition add_item :: "nat \<Rightarrow> item \<Rightarrow> (world, unit) prog" where
  "add_item r it =
     (\<lambda>w. (Inr (),
        w\<lparr>reports := (reports w)
             [r := Report (report_title (reports w ! r)) (items (reports w ! r) @ [it])]\<rparr>))"

definition add_figure :: "nat \<Rightarrow> figure list \<Rightarrow> string \<Rightarrow> string option \<Rightarrow> (world, unit) prog" where
  "add_figure r fs t sec = add_item r (Item FigureContent t sec fs)"

definition report_save :: "nat \<Rightarrow> bids_path \<Rightarrow> (world, unit) prog" where
  "report_save r fname = (\<lambda>w. (Inr (), w\<lparr>saved := saved w @ [(fname, reports w ! r)]\<rparr>))"

definition report_heading :: "string \<Rightarrow> string option \<Rightarrow> string option \<Rightarrow> string" where
  "report_heading subj ses tsk =
     ''sub-'' @ subj
     @ (case ses of None \<Rightarrow> [] | Some s \<Rightarrow> '', ses-'' @ s)
     @ (case tsk of None \<Rightarrow> [] | Some t \<Rightarrow> '', task-'' @ t)"

definition gen_empty_report :: "cfg \<Rightarrow> string \<Rightarrow> string option \<Rightarrow> (world, nat) prog" where
  "gen_empty_report cfg subj ses = new_report (report_heading subj ses (cfg_task cfg))"

definition BIDSPath :: "cfg \<Rightarrow> string \<Rightarrow> string option \<Rightarrow> bids_path" where
  "BIDSPath cfg subj ses =
     \<lparr>subject = subj, session = ses, task = cfg_task cfg, run = None, processing = None,
      suffix = None, extension = Some ''.fif''\<rparr>"

text \<open>The list \<^verbatim>\<open>conditions\<close> of the evoked sections: the conditions, then the contrasts.\<close>

definition evoked_conditions :: "cfg \<Rightarrow> string list" where
  "evoked_conditions cfg =
     (case conditions cfg of None \<Rightarrow> [] | Some cs \<Rightarrow> cs) @ all_contrasts cfg"

definition is_condition :: "cfg \<Rightarrow> string \<Rightarrow> ('s, bool) prog" where
  "is_condition cfg condition =
     (case conditions cfg of None \<Rightarrow> throw TypeError | Some cs \<Rightarrow> ok (condition \<in> set cs))"

text \<open>
  The \<^verbatim>\<open>processing\<close> entity of a decoding file: path separators are removed from the two
  condition names, then underscores and hyphens from the whole.
\<close>

definition decoding_processing :: "string \<Rightarrow> string \<Rightarrow> string \<Rightarrow> string \<Rightarrow> string" where
  "decoding_processing cond_1 cond_2 what metric =
     filter (\<lambda>c. c \<noteq> CHR ''_'' \<and> c \<noteq> CHR ''-'')
       (filter (\<lambda>c. c \<noteq> CHR ''/'') (cond_1 @ ''+'' @ cond_2) @ ''+'' @ what @ ''+'' @ metric)"

definition fname_decoding ::
  "cfg \<Rightarrow> bids_path \<Rightarrow> string \<times> string \<Rightarrow> string \<Rightarrow> bids_path" where
  "fname_decoding cfg bids_path contrast what =
     bids_path\<lparr>processing := Some (decoding_processing (fst contrast) (snd contrast) what
                                      (decoding_metric cfg)),
               suffix := Some ''decoding'', extension := Some ''.mat''\<rparr>"

subsection \<open>The preprocessing stage\<close>

definition add_raw :: "env \<Rightarrow> nat \<Rightarrow> bids_path \<Rightarrow> string \<Rightarrow> (world, unit) prog" where
  "add_raw env report fname t =
     bnd (read_raw_fif env fname) (\<lambda>raw. add_item report (Item RawData t None []))"

definition get_events :: "env \<Rightarrow> cfg \<Rightarrow> string \<Rightarrow> string option \<Rightarrow> (world, unit) prog" where
  "get_events env cfg subj ses =
     (let raw_fname = (BIDSPath cfg subj ses)\<lparr>processing := Some ''filt'', suffix := Some ''raw''\<rparr>
      in seq (foreach (runs cfg) (\<lambda>r.
                bnd (lift (update_for_splits env (raw_fname\<lparr>run := r\<rparr>) False)) (read_raw_fif env)))
             (if runs cfg = [] then throw IndexError else ok ()))"

definition get_er_path :: "env \<Rightarrow> cfg \<Rightarrow> string \<Rightarrow> string option \<Rightarrow> ('s, bids_path) prog" where
  "get_er_path env cfg subj ses =
     lift (update_for_splits env
       ((BIDSPath cfg subj ses)\<lparr>task := Some ''noise'', processing := Some ''filt'',
                                suffix := Some ''raw''\<rparr>) True)"

text \<open>Figures drawn by plotting code of other modules: \<open>n\<close> new figures.\<close>

fun library_figs :: "string \<Rightarrow> nat \<Rightarrow> (world, figure list) prog" where
  "library_figs what 0 = ok []"
| "library_figs what (Suc n) =
     bnd (subplots (draw (Library what))) (\<lambda>fig.
     bnd (library_figs what n) (\<lambda>figs. ok (fig # figs)))"

definition plot_auto_scores' ::
  "env \<Rightarrow> cfg \<Rightarrow> string \<Rightarrow> string option \<Rightarrow> (world, figure list) prog" where
  "plot_auto_scores' env cfg subj ses =
     (let fname_scores = (BIDSPath cfg subj ses)\<lparr>processing := proc cfg, suffix := Some ''scores'',
                                                  extension := Some ''.json''\<rparr>
      in bnd (collect_each (runs cfg) (\<lambda>r.
                bnd (read_scores env (fname_scores\<lparr>run := r\<rparr>)) (library_figs ''auto scores'')))
           (\<lambda>figs. if concat figs = [] then throw AssertionError else ok (concat figs)))"

definition contains :: "string \<Rightarrow> string \<Rightarrow> bool" where
  "contains sub s = list_ex (\<lambda>i. take (length sub) (drop i s) = sub) [0..<Suc (length s)]"

fun show_nat :: "nat \<Rightarrow> string" where
  "show_nat n =
     (if n < 10 then [''0123456789'' ! n]
      else show_nat (n div 10) @ [''0123456789'' ! (n mod 10)])"

declare show_nat.simps [simp del]

definition run_report_preprocessing ::
  "env \<Rightarrow> cfg \<Rightarrow> string \<Rightarrow> string option \<Rightarrow> nat option \<Rightarrow> (world, nat) prog" where
  "run_report_preprocessing env cfg subj ses report_arg =
     seq (logger_info ''Generating preprocessing report ...'')
    (bnd (case report_arg of None \<Rightarrow> gen_empty_report cfg subj ses | Some r \<Rightarrow> ok r) (\<lambda>report.
     let bids_path = BIDSPath cfg subj ses in
     bnd (collect_each (runs cfg) (\<lambda>r.
            lift (update_for_splits env
              (bids_path\<lparr>run := r, processing := Some ''filt'', suffix := Some ''raw''\<rparr>) False)))
       (\<lambda>fnames_raw_filt.
     let fname_epo_not_clean = bids_path\<lparr>suffix := Some ''epo''\<rparr>;
         fname_epo_clean = bids_path\<lparr>processing := Some ''clean'', suffix := Some ''epo''\<rparr>;
         fname_ica = bids_path\<lparr>suffix := Some ''ica''\<rparr>;
         fname_ssp = bids_path\<lparr>suffix := Some ''proj''\<rparr>;
         fname_eog_epochs = bids_path\<lparr>suffix := Some ''eog-epo''\<rparr>;
         fname_ecg_epochs = bids_path\<lparr>suffix := Some ''ecg-epo''\<rparr>
     in
     seq (block
       [foreach fnames_raw_filt (\<lambda>fname. block
          [logger_info ''Adding filtered raw data to report.'',
           add_raw env report fname
             (''Raw'' @ (case run fname of None \<Rightarrow> [] | Some r \<Rightarrow> '', run '' @ r))]),
        bnd (get_er_path env cfg subj ses) (\<lambda>er_path.
          run_if (path_exists env er_path) (block
            [logger_info ''Adding filtered empty-room raw data to report.'',
             add_raw env report er_path ''Empty-Room''])),
        run_if (find_noisy_channels_meg cfg) (block
          [logger_info ''Adding visualization of noisy channel detection to report.'',
           bnd (plot_auto_scores' env cfg subj ses) (\<lambda>figs. block
             [add_figure report figs ''Data Quality'' None,
              foreach figs plt_close])]),
        run_if (\<not> task_is_rest cfg) (block
          [logger_info ''Adding events plot to report.'',
           get_events env cfg subj ses,
           add_item report (Item Events ''Events'' None [])]),
        logger_info ''Adding uncleaned epochs to report.'',
        bnd (read_epochs env fname_epo_not_clean) (\<lambda>epochs.
          add_item report (Item Epochs ''Epochs (before cleaning)'' None [])),
        run_if (spatial_filter cfg = Some ''ica'') (block
          [logger_info ''Adding ICA to report.'',
           bnd (read_epochs env fname_epo_not_clean) (\<lambda>epochs.
           bnd (read_ica env fname_ica) (\<lambda>exclude.
             run_if (exclude \<noteq> []) (add_item report (Item ICA ''ICA'' None []))))]),
        run_if (spatial_filter cfg = Some ''ssp'')
          (foreach [(''ECG'', fname_ecg_epochs), (''EOG'', fname_eog_epochs)] (\<lambda>(kind, fname).
             run_if (path_exists env fname) (block
               [logger_info (''Adding '' @ kind @ '' SSP to report.''),
                bnd (read_epochs env fname) (\<lambda>epochs.
                bnd (read_proj env fname_ssp) (\<lambda>projs.
                  if filter (contains kind) projs = [] then throw AssertionError
                  else
                    bnd (subplots (draw (Library ''plot_projs_joint''))) (\<lambda>fig. block
                      [add_figure report [fig] (''SSP: '' @ kind) None,
                       plt_close fig])))]))),
        logger_info ''Adding cleaned epochs to report.'',
        bnd (read_epochs env fname_epo_clean) (\<lambda>epochs.
          add_item report (Item Epochs ''Epochs (after cleaning)'' None []))])
       (ok report))))"

subsection \<open>The sensor-space stage\<close>

definition epochs_len :: "epochs \<Rightarrow> string \<Rightarrow> ('s, unit) prog" where
  "epochs_len epochs cond = (if cond \<in> set (event_names epochs) then ok () else throw KeyError)"

definition full_epochs_scores ::
  "env \<Rightarrow> cfg \<Rightarrow> bids_path \<Rightarrow> (world, ndarray list) prog" where
  "full_epochs_scores env cfg bids_path =
     collect_each (decoding_contrasts cfg) (\<lambda>contrast.
       bnd (loadmat env (fname_decoding cfg bids_path contrast ''FullEpochs'')) (\<lambda>decoding_data.
       bnd (get_arr decoding_data ''scores'') (\<lambda>scores. ok (atleast_1d (squeeze scores)))))"

definition decoding_section :: "string \<times> string \<Rightarrow> string" where
  "decoding_section contrast =
     ''Time-by-time decoding: '' @ fst contrast @ '' ./. '' @ snd contrast"

definition read_tfrs :: "env \<Rightarrow> bids_path \<Rightarrow> ('s, unit) prog" where
  "read_tfrs env p =
     bnd (read_file env p) (\<lambda>f. case f of OtherFile \<Rightarrow> ok () | _ \<Rightarrow> throw ValueError)"

definition run_report_sensor ::
  "env \<Rightarrow> cfg \<Rightarrow> string \<Rightarrow> string option \<Rightarrow> nat option \<Rightarrow> (world, nat) prog" where
  "run_report_sensor env cfg subj ses report_arg =
     seq (logger_info ''Generating sensor-space analysis report ...'')
    (bnd (case report_arg of None \<Rightarrow> gen_empty_report cfg subj ses | Some r \<Rightarrow> ok r) (\<lambda>report.
     let bids_path = BIDSPath cfg subj ses;
         fname_epo_clean = bids_path\<lparr>processing := Some ''clean'', suffix := Some ''epo''\<rparr>;
         fname_ave = bids_path\<lparr>suffix := Some ''ave''\<rparr>;
         fname_tfr_pow = (\<lambda>cond. bids_path\<lparr>suffix := Some (''power+'' @ cond @ ''+tfr''),
                                             extension := Some ''.h5''\<rparr>);
         fname_tfr_itc = (\<lambda>cond. bids_path\<lparr>suffix := Some (''itc+'' @ cond @ ''+tfr''),
                                             extension := Some ''.h5''\<rparr>);
         fname_noise_cov = get_noise_cov_bids_path env subj ses;
         conds = evoked_conditions cfg;
         tfr_conditions = (case time_frequency_conditions cfg of None \<Rightarrow> [] | Some cs \<Rightarrow> cs)
     in
     bnd (if conds \<noteq> [] then read_evokeds env fname_ave else ok []) (\<lambda>evokeds.
     seq (block
       [logger_info
          (if evokeds \<noteq> []
           then ''Adding '' @ show_nat (length conds)
                @ '' evoked signals and contrasts to the report.''
           else ''No evoked conditions or contrasts found.''),
        if path_exists env fname_noise_cov
        then logger_info (''Reading noise covariance: '' @ basename env fname_noise_cov)
        else logger_info ''No noise covariance matrix found, not rendering whitened data'',
        foreach (zip conds evokeds) (\<lambda>(condition, evoked).
          bnd (is_condition cfg condition) (\<lambda>c.
            add_item report
              (Item Evokeds ((if c then ''Condition: '' else ''Contrast: '') @ condition)
                 None []))),
        run_if (decode cfg \<and> decoding_contrasts cfg \<noteq> []) (block
          [logger_info ''Adding full-epochs decoding results to the report.'',
           bnd (full_epochs_scores env cfg bids_path) (\<lambda>all_decoding_scores.
           bnd (plot_full_epochs_decoding_scores (decoding_contrasts cfg) all_decoding_scores
                  (decoding_metric cfg) ''single-subject'') (\<lambda>fig. block
             [add_figure report [fig] ''Full-epochs Decoding'' None,
              plt_close fig]))]),
        run_if (decode cfg \<and> decoding_contrasts cfg \<noteq> []) (block
          [logger_info ''Adding time-by-time decoding results to the report.'',
           bnd (read_epochs env fname_epo_clean) (\<lambda>epochs.
           foreach (decoding_contrasts cfg) (\<lambda>contrast.
             bnd (loadmat env (fname_decoding cfg bids_path contrast ''TimeByTime''))
               (\<lambda>decoding_data.
             bnd (get_arr decoding_data ''times'') (\<lambda>a_times.
             bnd (get_arr decoding_data ''scores'') (\<lambda>scores.
             bnd (bnd (get_arr decoding_data ''decim'') item) (\<lambda>decim.
             bnd (plot_time_by_time_decoding_scores (A1 (flat a_times)) scores
                    (decoding_metric cfg) (decoding_time_generalization cfg) decim) (\<lambda>fig.
             block
               [epochs_len epochs (fst contrast),
                epochs_len epochs (snd contrast),
                add_figure report [fig] ''Decoding performance over time''
                  (Some (decoding_section contrast)),
                plt_close fig,
                run_if (decoding_time_generalization cfg)
                  (bnd (plot_decoding_time_generalization decoding_data (decoding_metric cfg)
                          ''single-subject'') (\<lambda>fig. block
                     [add_figure report [fig] ''Time generalization''
                        (Some (decoding_section contrast)),
                      plt_close fig]))])))))))]),
        run_if (tfr_conditions \<noteq> [])
          (logger_info ''Adding TFR analysis results to the report.''),
        foreach tfr_conditions (\<lambda>condition.
          let cond = sanitize_cond_name env condition in
          bnd (read_tfrs env (fname_tfr_pow cond)) (\<lambda>power.
          bnd (subplots (draw (Library ''plot_topo''))) (\<lambda>fig_power.
          block
            [add_figure report [fig_power] (''TFR Power: '' @ condition) None,
             plt_close fig_power,
             bnd (read_tfrs env (fname_tfr_itc cond)) (\<lambda>itc.
             bnd (subplots (draw (Library ''plot_topo''))) (\<lambda>fig_itc.
             block
               [add_figure report [fig_itc] (''TFR ITC: '' @ condition) None,
                plt_close fig_power]))])))])
       (ok report))))"

subsection \<open>The source-space stage\<close>

definition add_bem :: "env \<Rightarrow> cfg \<Rightarrow> nat \<Rightarrow> (world, unit) prog" where
  "add_bem env cfg report =
     (if bem_available env (fs_subject cfg) then add_item report (Item BEM ''BEM'' None [])
      else throw ArtifactMissing)"

definition run_report_source ::
  "env \<Rightarrow> cfg \<Rightarrow> string \<Rightarrow> string option \<Rightarrow> nat option \<Rightarrow> (world, nat) prog" where
  "run_report_source env cfg subj ses report_arg =
     seq (logger_info ''Generating source-space analysis report ...'')
    (bnd (case report_arg of None \<Rightarrow> gen_empty_report cfg subj ses | Some r \<Rightarrow> ok r) (\<lambda>report.
     let bids_path = BIDSPath cfg subj ses;
         fname_info = bids_path\<lparr>processing := Some ''clean'', suffix := Some ''epo''\<rparr>;
         fname_trans = bids_path\<lparr>suffix := Some ''trans''\<rparr>
     in
     if \<not> path_exists env fname_trans
     then seq (logger_info ''No coregistration found, skipping source space report.'')
              (ok report)
     else
       let fname_noise_cov = get_noise_cov_bids_path env subj ses;
           conds = evoked_conditions cfg
       in
       seq (block
         [logger_info ''Rendering MRI slices with BEM contours.'',
          add_bem env cfg report,
          logger_info ''Rendering sensor alignment (coregistration).'',
          bnd (read_file env fname_trans) (\<lambda>trans.
          bnd (read_file env fname_info) (\<lambda>info.
            add_item report (Item Trans ''Sensor alignment'' None []))),
          logger_info ''Rendering noise covariance matrix and corresponding SVD.'',
          bnd (read_file env fname_noise_cov) (\<lambda>cov.
          bnd (read_file env fname_info) (\<lambda>info.
            add_item report (Item Covariance ''Noise covariance'' None []))),
          foreach conds (\<lambda>condition.
            seq (logger_info (''Rendering inverse solution for '' @ condition))
           (bnd (is_condition cfg condition) (\<lambda>c.
              let cond_str = sanitize_cond_name env condition;
                  fname_stc = bids_path\<lparr>suffix := Some (cond_str @ ''+'' @ inverse_method cfg
                                                             @ ''+hemi''),
                                         extension := Some ''-lh.stc''\<rparr>
              in run_if (c \<and> path_exists env fname_stc)
                   (add_item report (Item STC (''Source: '' @ cond_str) None []))))),
          plt_close_all])
         (ok report)))"

subsection \<open>One subject's report\<close>

definition add_system_info :: "env \<Rightarrow> nat \<Rightarrow> (world, unit) prog" where
  "add_system_info env report =
     (case study_config env of
        None \<Rightarrow> throw KeyError
      | Some config_path \<Rightarrow>
          block
            [if readable env config_path
             then add_item report (Item Code ''Configuration file'' None [])
             else throw ArtifactMissing,
             add_item report (Item SysInfo ''System information'' None [])])"

text \<open>
  The three stages are handed the same report object (the source keeps it in \<^verbatim>\<open>kwargs\<close>);
  each returns the object it was given.
\<close>

definition run_report :: "env \<Rightarrow> cfg \<Rightarrow> string \<Rightarrow> string option \<Rightarrow> (world, unit) prog" where
  "run_report env cfg subj ses =
     bnd (gen_empty_report cfg subj ses) (\<lambda>report0.
     bnd (run_report_preprocessing env cfg subj ses (Some report0)) (\<lambda>report.
     bnd (run_report_sensor env cfg subj ses (Some report0)) (\<lambda>report.
     bnd (run_report_source env cfg subj ses (Some report0)) (\<lambda>report.
     block
       [add_system_info env report,
        report_save report
          ((BIDSPath cfg subj ses)\<lparr>suffix := Some ''report'', extension := Some ''.html''\<rparr>)]))))"

subsection \<open>The grand-average report\<close>

definition add_event_counts :: "env \<Rightarrow> cfg \<Rightarrow> string option \<Rightarrow> nat \<Rightarrow> (world, unit) prog" where
  "add_event_counts env cfg ses report =
     (case count_events env ses of
        Inl e \<Rightarrow> if e = ValueError then logger_warning ''Could not read events.'' else throw e
      | Inr df_events \<Rightarrow>
          block
            [add_item report (Item HTML ''Event counts'' None []),
             add_item report (Item CSS [] None [])])"

definition add_decoding_grand_average ::
  "env \<Rightarrow> string option \<Rightarrow> cfg \<Rightarrow> nat \<Rightarrow> (world, unit) prog" where
  "add_decoding_grand_average env ses cfg report =
     (let bids_path = (BIDSPath cfg ''average'' ses)\<lparr>suffix := Some ''ave''\<rparr> in
      bnd (full_epochs_scores env cfg bids_path) (\<lambda>all_decoding_scores.
      bnd (plot_full_epochs_decoding_scores (decoding_contrasts cfg) all_decoding_scores
             (decoding_metric cfg) ''grand-average'') (\<lambda>fig.
      block
        [add_figure report [fig] ''Full-epochs Decoding'' None,
         plt_close fig,
         foreach (decoding_contrasts cfg) (\<lambda>contrast.
           bnd (loadmat env (fname_decoding cfg bids_path contrast ''TimeByTime''))
             (\<lambda>decoding_data.
           bnd (plot_time_by_time_decoding_scores_gavg cfg decoding_data) (\<lambda>fig.
           block
             [bnd (get_arr decoding_data ''N'') (\<lambda>n. ok ()),
              run_if (length (get_subjects cfg) > 1) (block
                [bnd (get_arr decoding_data ''cluster_n_permutations'') (\<lambda>n. ok ()),
                 add_figure report [fig] ''Decoding performance over time''
                   (Some (decoding_section contrast)),
                 plt_close fig]),
              run_if (length (get_subjects cfg) > 1)
                (bnd (plot_time_by_time_decoding_t_values decoding_data) (\<lambda>fig. block
                   [bnd (bnd (get_arr decoding_data ''cluster_t_threshold'') item)
                      (\<lambda>t_threshold. ok ()),
                    add_figure report [fig] ''t-values based on decoding scores over time''
                      (Some (decoding_section contrast)),
                    plt_close fig])),
              run_if (decoding_time_generalization cfg)
                (bnd (plot_decoding_time_generalization decoding_data (decoding_metric cfg)
                        ''grand-average'') (\<lambda>fig. block
                   [bnd (bnd (get_arr decoding_data ''N'') item) (\<lambda>n. ok ()),
                    add_figure report [fig] ''Time generalization''
                      (Some (decoding_section contrast)),
                    plt_close fig]))])))])))"

definition run_report_average ::
  "env \<Rightarrow> cfg \<Rightarrow> string \<Rightarrow> string option \<Rightarrow> (world, unit) prog" where
  "run_report_average env cfg subj ses =
     seq (logger_info ''Generating grand average report ...'')
    (let evoked_fname = (BIDSPath cfg subj ses)\<lparr>suffix := Some ''ave''\<rparr> in
     bnd (new_report (report_heading subj ses (cfg_task cfg))) (\<lambda>report.
     bnd (read_evokeds env evoked_fname) (\<lambda>evokeds.
     bnd (case conditions cfg of
            None \<Rightarrow> throw AttributeError
          | Some cs \<Rightarrow> ok (cs @ all_contrasts cfg)) (\<lambda>conds.
     block
       [add_event_counts env cfg ses report,
        foreach (zip conds evokeds) (\<lambda>(condition, evoked).
          bnd (is_condition cfg condition) (\<lambda>c.
            run_if c (add_item report (Item Evokeds (''Average: '' @ condition) None [])))),
        run_if (decode cfg \<and> decoding_contrasts cfg \<noteq> [])
          (add_decoding_grand_average env ses cfg report),
        foreach (zip conds evokeds) (\<lambda>(condition, evoked).
          bnd (is_condition cfg condition) (\<lambda>c.
            let cond_str = sanitize_cond_name env condition;
                fname_stc_avg =
                  evoked_fname\<lparr>suffix := Some (cond_str @ ''+'' @ inverse_method cfg
                                                  @ ''+morph2fsaverage+hemi''),
                               extension := Some ''-lh.stc''\<rparr>
            in run_if (path_exists env fname_stc_avg)
                 (add_item report
                    (Item STC ((if c then ''Average: '' else ''Average contrast: '') @ condition)
                       None [])))),
        add_system_info env report,
        report_save report
          (evoked_fname\<lparr>task := cfg_task cfg, suffix := Some ''report'',
                        extension := Some ''.html''\<rparr>),
        plt_close_all]))))"

subsection \<open>The batch\<close>

text \<open>
  The module \<^verbatim>\<open>config\<close>: the settings of the study, with the helpers that depend on the
  subject. \<^verbatim>\<open>get_config\<close> builds the namespace one report is run with.
\<close>

record config = cfg +
  get_sessions :: "string option list"
  get_runs :: "string \<Rightarrow> string option list"
  get_fs_subject :: "string \<Rightarrow> string option"

definition get_config :: "config \<Rightarrow> string \<Rightarrow> cfg" where
  "get_config config subj =
     (cfg.truncate config)\<lparr>runs := get_runs config subj, fs_subject := get_fs_subject config subj\<rparr>"

text \<open>
  Modelled from the spec: the decorator \<^verbatim>\<open>failsafe_run\<close> of \<^verbatim>\<open>_run.py\<close>, which is not part
  of this development. The specification says that each task's failure is caught and
  recorded independently, so that the other tasks proceed to completion.
  \<open>run_report\<close> and \<open>run_report_average\<close> above are the bodies of the decorated
  functions; the decorator is applied where \<open>main\<close> calls them.
\<close>

definition failsafe_run :: "(world, unit) prog \<Rightarrow> (world, unit) prog" where
  "failsafe_run job =
     (\<lambda>w. case job w of
        (Inl e, w') \<Rightarrow> (Inr (), w'\<lparr>logged := logged w' @ [(ERROR, ''A critical error occurred.'')]\<rparr>)
      | (Inr u, w') \<Rightarrow> (Inr u, w'))"

definition subject_reports :: "env \<Rightarrow> config \<Rightarrow> (world, unit) prog" where
  "subject_reports env config =
     foreach (List.product (get_subjects config) (get_sessions config)) (\<lambda>(subj, ses).
       failsafe_run (run_report env (get_config config subj) subj ses))"

definition main :: "env \<Rightarrow> config \<Rightarrow> (world, unit) prog" where
  "main env config =
     seq (subject_reports env config)
       (if task_is_rest config
        then logger_info ''    ... skipping average report for rest task.''
        else foreach (get_sessions config) (\<lambda>ses.
               failsafe_run (run_report_average env (get_config config ''average'')
                               ''average'' ses)))"

section \<open>Notions used in the statements\<close>

text \<open>The spans highlighted in a figure, in drawing order, and the span a cluster covers.\<close>

fun highlights :: "element list \<Rightarrow> (real \<times> real) list" where
  "highlights [] = []"
| "highlights (FillBetweenX y x1 x2 l # els) = (x1, x2) # highlights els"
| "highlights (el # els) = highlights els"

definition span :: "cluster \<Rightarrow> real \<times> real" where
  "span c = (hd (c_times c), last (c_times c))"

fun is_span :: "element \<Rightarrow> bool" where
  "is_span (FillBetweenX y x1 x2 l) = True"
| "is_span el = False"

text \<open>A drawing program that highlights nothing.\<close>

definition quiet :: "(element list, 'a) prog \<Rightarrow> bool" where
  "quiet m = (\<forall>ax r ax'. m ax = (r, ax') \<longrightarrow> highlights ax' = highlights ax)"

subsection \<open>Sample inputs\<close>

definition sample_cfg :: cfg where
  "sample_cfg =
     \<lparr>cfg_task = Some ''faces'', task_is_rest = False, runs = [None],
      find_noisy_channels_meg = False, spatial_filter = None,
      conditions = Some [''famous''], all_contrasts = [],
      decoding_contrasts = [(''famous'', ''scrambled'')], time_frequency_conditions = None,
      decode = True, decoding_metric = ''roc_auc'', decoding_time_generalization = False,
      n_boot = 5000, cluster_permutation_p_threshold = 0.05, inverse_method = ''dSPM'',
      fs_subject = None, eog_channels = None, proc = None, get_subjects = [''01'']\<rparr>"

definition sample_clusters :: "cluster list" where
  "sample_clusters =
     [\<lparr>c_times = [0, 0.1], c_p_value = 0.01\<rparr>,
      \<lparr>c_times = [- 0.1], c_p_value = 0.05\<rparr>]"

definition sample_gavg :: mat where
  "sample_gavg =
     map_of
       [(''times'', Arr (A2 [[- 0.1, 0, 0.1]])),
        (''mean'', Arr (A2 [[0.5, 0.7, 0.6]])),
        (''mean_se'', Arr (A2 [[0.1, 0.1, 0.1]])),
        (''mean_ci_lower'', Arr (A2 [[0.4, 0.6, 0.5]])),
        (''mean_ci_upper'', Arr (A2 [[0.6, 0.8, 0.7]])),
        (''decim'', Arr (A2 [[1]])),
        (''N'', Arr (A2 [[1]])),
        (''scores'', Arr (A2 [[0.6]])),
        (''clusters'', Structs sample_clusters),
        (''cluster_all_times'', Arr (A2 [[- 0.1, 0, 0.1]])),
        (''cluster_all_t_values'', Arr (A2 [[0.2, 3.1, 2.9]])),
        (''cluster_t_threshold'', Arr (A2 [[2.5]])),
        (''cluster_n_permutations'', Arr (A2 [[1024]]))]"

definition empty_world :: world where
  "empty_world = \<lparr>reports = [], fig_count = 0, open_figs = [], logged = [], saved = []\<rparr>"

text \<open>
  A square matrix of side \<open>n\<close>, and the curve that reduces, at each time point \<open>i\<close>, the
  entries at train time \<open>i\<close> and test time \<open>i\<close> of all cross-validation folds.
\<close>

definition square :: "nat \<Rightarrow> real list list \<Rightarrow> bool" where
  "square n m = (length m = n \<and> list_all (\<lambda>r. length r = n) m)"

definition diag_of_folds :: "(real list \<Rightarrow> real) \<Rightarrow> real list list list \<Rightarrow> real list" where
  "diag_of_folds g folds =
     map (\<lambda>i. g (map (\<lambda>f. f ! i ! i) folds))
       [0..<min (length (hd folds)) (length (hd (hd folds)))]"

text \<open>A drawing program that removes nothing that is already drawn.\<close>

definition keeps :: "(element list, 'a) prog \<Rightarrow> bool" where
  "keeps m = (\<forall>ax r ax'. m ax = (r, ax') \<longrightarrow> set ax \<subseteq> set ax')"

text \<open>Sample inputs with time generalization: two folds of 2 by 2 scores, and a grand average.\<close>

definition sample_folds :: "real list list list" where
  "sample_folds = [[[0.6, 0.1], [0.2, 0.8]], [[0.8, 0.3], [0.4, 0.6]]]"

definition sample_tg_cfg :: cfg where
  "sample_tg_cfg = sample_cfg\<lparr>decoding_time_generalization := True\<rparr>"

definition sample_tg_gavg :: mat where
  "sample_tg_gavg =
     map_of
       [(''times'', Arr (A2 [[0, 0.1]])),
        (''mean'', Arr (A2 [[0.7, 0.2], [0.3, 0.7]])),
        (''mean_se'', Arr (A2 [[0.1, 0.5], [0.5, 0.1]])),
        (''mean_ci_lower'', Arr (A2 [[0.5, 0], [0, 0.5]])),
        (''mean_ci_upper'', Arr (A2 [[0.9, 1], [1, 0.9]])),
        (''decim'', Arr (A2 [[1]])),
        (''N'', Arr (A2 [[2]])),
        (''clusters'', Structs [])]"

text \<open>
  A sample derivatives directory: filtered raw data, epochs, evoked responses, decoding
  scores of one contrast (per subject and averaged) and time-frequency transforms of one
  condition; no coregistration, no noise covariance, no empty-room recording.
\<close>

definition sample_single :: mat where
  "sample_single =
     map_of
       [(''times'', Arr (A2 [[- 0.1, 0, 0.1]])),
        (''scores'', Arr (A2 [[0.5, 0.7, 0.6], [0.7, 0.9, 0.6]])),
        (''decim'', Arr (A2 [[1]]))]"

definition sample_full :: mat where
  "sample_full = map_of [(''scores'', Arr (A2 [[0.6, 0.7]]))]"

definition sample_files :: "bids_path \<Rightarrow> artifact option" where
  "sample_files p =
     (if suffix p = Some ''raw'' \<and> task p \<noteq> Some ''noise'' then Some RawFile
      else if suffix p = Some ''epo''
        then Some (EpochsFile \<lparr>event_names = [''famous'', ''scrambled'']\<rparr>)
      else if suffix p = Some ''ave'' then Some (EvokedsFile [''famous''])
      else if suffix p = Some ''decoding''
        then (if processing p = Some ''famous+scrambled+FullEpochs+rocauc''
                then Some (MatFile sample_full)
              else if processing p = Some ''famous+scrambled+TimeByTime+rocauc''
                then Some (MatFile (if subject p = ''average'' then sample_gavg
                                    else sample_single))
              else None)
      else if suffix p = Some ''power+famous+tfr'' \<or> suffix p = Some ''itc+famous+tfr''
        then Some OtherFile
      else None)"

definition sample_env :: env where
  "sample_env =
     \<lparr>files = sample_files, study_config = Some ''config.py'', readable = (\<lambda>p. True),
      bem_available = (\<lambda>s. False), update_for_splits = (\<lambda>p allow_missing. Inr p),
      get_noise_cov_bids_path =
        (\<lambda>subj ses. \<lparr>subject = subj, session = ses, task = None, run = None,
                       processing = None, suffix = Some ''cov'', extension = Some ''.fif''\<rparr>),
      sanitize_cond_name = (\<lambda>c. c), basename = (\<lambda>p. ''cov.fif''),
      count_events = (\<lambda>ses. Inr ())\<rparr>"

text \<open>A configuration with time-frequency conditions and no decoding.\<close>

definition sample_tfr_cfg :: cfg where
  "sample_tfr_cfg =
     sample_cfg\<lparr>decode := False, time_frequency_conditions := Some [''famous'']\<rparr>"

text \<open>A resting-state study with one subject and no sessions.\<close>

definition sample_rest_config :: config where
  "sample_rest_config =
     cfg.extend
       (sample_cfg\<lparr>cfg_task := Some ''rest'', task_is_rest := True, conditions := None,
                    decoding_contrasts := [], decode := False\<rparr>)
       (config.fields [None] (\<lambda>subj. [None]) (\<lambda>subj. None))"

section \<open>Reasoning about programs\<close>

lemmas prog_defs = ok_def throw_def bnd_def seq_def run_if_def lift_def

lemmas np_defs =
  np_sub_def np_add_def np_binop_def broadcast_def of_3d_def np_diag_def diagonal_def
  np_min_def np_max_def item_def squeeze_rows_def squeeze_inner_def reduce_axis0_def
  mean_axis0_def max_axis0_def min_axis0_def average_def largest_def smallest_def
  first_last_def

lemmas draw_defs =
  draw_def get_ylim_def subplots_def label_time_by_time_def mark_time_zero_def
  score_label_def get_arr_def get_structs_def

lemmas sample_defs = sample_cfg_def sample_gavg_def sample_clusters_def empty_world_def

lemma bnd_okE:
  assumes "bnd m f s = (Inr y, s')"
  obtains x s1 where "m s = (Inr x, s1)" and "f x s1 = (Inr y, s')"
  using assms by (auto simp: bnd_def split: prod.splits sum.splits)

lemma seq_okE:
  assumes "seq m n s = (Inr y, s')"
  obtains x s1 where "m s = (Inr x, s1)" and "n s1 = (Inr y, s')"
  using assms by (auto simp: seq_def elim: bnd_okE)

lemma subplots_okE:
  assumes "subplots drawing w = (Inr fig, w')"
  obtains ax where "drawing [] = (Inr (), ax)" and "fig = Figure (fig_count w) ax"
    and "w' = w\<lparr>fig_count := fig_count w + 1, open_figs := open_figs w @ [fig]\<rparr>"
  using assms by (auto simp: subplots_def Let_def split: prod.splits sum.splits)

subsection \<open>Which drawing steps highlight\<close>

lemma highlights_append: "highlights (xs @ ys) = highlights xs @ highlights ys"
  by (induction xs rule: highlights.induct) auto

lemma draw_highlights:
  "draw el ax = (r, ax') \<Longrightarrow> \<not> is_span el \<Longrightarrow> highlights ax' = highlights ax"
  by (cases el) (auto simp: draw_def highlights_append)

lemma quietD: "quiet m \<Longrightarrow> m ax = (r, ax') \<Longrightarrow> highlights ax' = highlights ax"
  by (auto simp: quiet_def)

lemma quiet_ok: "quiet (ok x)"
  by (simp add: quiet_def ok_def)

lemma quiet_throw: "quiet (throw e)"
  by (simp add: quiet_def throw_def)

lemma quiet_bnd: "quiet m \<Longrightarrow> (\<And>x. quiet (f x)) \<Longrightarrow> quiet (bnd m f)"
  unfolding quiet_def bnd_def by (auto split: prod.splits sum.splits)

lemma quiet_seq: "quiet m \<Longrightarrow> quiet n \<Longrightarrow> quiet (seq m n)"
  by (simp add: seq_def quiet_bnd)

lemma quiet_run_if: "quiet m \<Longrightarrow> quiet (run_if b m)"
  by (simp add: run_if_def quiet_ok)

lemma quiet_draw: "\<not> is_span el \<Longrightarrow> quiet (draw el)"
  unfolding quiet_def using draw_highlights by blast

lemma quiet_block: "(\<And>m. m \<in> set ms \<Longrightarrow> quiet m) \<Longrightarrow> quiet (block ms)"
  by (induction ms) (auto intro: quiet_ok quiet_seq)

lemma quiet_np_min: "quiet (np_min a)"
  by (auto simp: np_min_def intro: quiet_ok quiet_throw split: list.splits)

lemma quiet_np_max: "quiet (np_max a)"
  by (auto simp: np_max_def intro: quiet_ok quiet_throw split: list.splits)

lemma quiet_get_arr: "quiet (get_arr d k)"
  by (auto simp: get_arr_def intro: quiet_ok quiet_throw split: option.splits mat_value.splits)

lemma quiet_mark_time_zero: "quiet (mark_time_zero t [AxVLine 0])"
  unfolding mark_time_zero_def
  by (intro quiet_bnd quiet_np_min)
     (auto intro!: quiet_bnd quiet_np_max quiet_run_if quiet_seq quiet_draw quiet_ok)

lemma quiet_label: "quiet (label_time_by_time decim xl yl)"
  unfolding label_time_by_time_def Let_def
  by (intro quiet_block) (auto intro!: quiet_draw quiet_ok split: option.splits)

text \<open>
  The loop over the clusters adds one span per cluster whose p-value is below the
  threshold, and nothing else.
\<close>

lemma highlight_clusters_ok:
  "highlight_clusters cfg cs n ax = (Inr u, ax') \<Longrightarrow>
   highlights ax' =
   highlights ax
   @ map span (filter (\<lambda>c. c_p_value c < cluster_permutation_p_threshold cfg) cs)"
proof (induction cs arbitrary: n ax)
  case Nil
  then show ?case by (simp add: ok_def)
next
  case (Cons c cs)
  show ?case
  proof (cases "c_p_value c \<ge> cluster_permutation_p_threshold cfg")
    case True
    with Cons show ?thesis by simp
  next
    case False
    with Cons.prems have ne: "c_times c \<noteq> []"
      by (auto simp: bnd_def get_ylim_def throw_def split: if_splits)
    from False ne Cons.prems obtain y where
      "highlight_clusters cfg cs (n + 1)
         (ax @ [FillBetweenX y (hd (c_times c)) (last (c_times c))
                  (if n = 0 then Some (cluster_permutation_p_threshold cfg) else None)])
       = (Inr u, ax')"
      by (auto simp: bnd_def get_ylim_def seq_def draw_def)
    from Cons.IH[OF this] False show ?thesis
      by (simp add: highlights_append span_def)
  qed
qed

lemma drawing_highlights:
  assumes "block (draw (SetYLim a b) # highlight_clusters cfg cs 0 # rest) [] = (Inr u, ax)"
    and q: "\<forall>m\<in>set rest. quiet m"
  shows "highlights ax =
         map span (filter (\<lambda>c. c_p_value c < cluster_permutation_p_threshold cfg) cs)"
proof -
  from assms(1) obtain ax1 where
    a1: "highlight_clusters cfg cs 0 [SetYLim a b] = (Inr (), ax1)"
    and a2: "block rest ax1 = (Inr u, ax)"
    by (auto simp: draw_def elim!: seq_okE)
  have "highlights ax = highlights ax1"
    using quietD[OF quiet_block a2] q by blast
  also have "\<dots> =
      map span (filter (\<lambda>c. c_p_value c < cluster_permutation_p_threshold cfg) cs)"
    using highlight_clusters_ok[OF a1] by simp
  finally show ?thesis .
qed

section \<open>Properties\<close>

text \<open>
  C3. In the grand-average time-by-time decoding figure a permutation cluster is
  highlighted if and only if its p-value is strictly below
  \<^verbatim>\<open>cfg.cluster_permutation_p_threshold\<close>: the highlighted spans of the figure are, in
  order, the spans of exactly those clusters of the artifact whose p-value is below the
  threshold, so a cluster at or above the threshold is never highlighted.
\<close>

theorem gavg_highlights_clusters_below_threshold:
  assumes run: "plot_time_by_time_decoding_scores_gavg cfg decoding_data w = (Inr fig, w')"
    and cl: "decoding_data ''clusters'' = Some (Structs clusters)"
  shows "highlights (elements fig) =
         map span (filter (\<lambda>c. c_p_value c < cluster_permutation_p_threshold cfg) clusters)"
proof -
  have gs: "get_structs decoding_data ''clusters'' s = (Inr clusters, s)" for s :: world
    using cl by (simp add: get_structs_def ok_def)
  show ?thesis
    using run unfolding plot_time_by_time_decoding_scores_gavg_def Let_def
    apply (elim bnd_okE subplots_okE)
    apply (simp add: gs del: block.simps)
    apply (erule drawing_highlights)
    apply (auto intro!: quiet_draw quiet_mark_time_zero quiet_label quiet_bnd quiet_get_arr)
    done
qed

theorem gavg_highlights_clusters_below_threshold_witness:
  "\<exists>fig w'.
     plot_time_by_time_decoding_scores_gavg sample_cfg sample_gavg empty_world = (Inr fig, w')
     \<and> sample_gavg ''clusters''
         = Some (Structs [\<lparr>c_times = [0, 0.1], c_p_value = 0.01\<rparr>,
                          \<lparr>c_times = [- 0.1], c_p_value = 0.05\<rparr>])
     \<and> cluster_permutation_p_threshold sample_cfg = 0.05
     \<and> highlights (elements fig) = [(0, 0.1)]"
proof -
  obtain fig w' where
    run: "plot_time_by_time_decoding_scores_gavg sample_cfg sample_gavg empty_world
          = (Inr fig, w')"
    by (simp add: plot_time_by_time_decoding_scores_gavg_def sample_defs prog_defs np_defs
        draw_defs Let_def)
  have cl: "sample_gavg ''clusters'' = Some (Structs sample_clusters)"
    by (simp add: sample_gavg_def)
  have "highlights (elements fig) = [(0, 0.1)]"
    using gavg_highlights_clusters_below_threshold[OF run cl]
    by (simp add: span_def sample_cfg_def sample_clusters_def)
  with run cl show ?thesis
    by (simp add: sample_clusters_def sample_cfg_def)
qed

subsection \<open>Elements stay drawn; diagonals of reductions\<close>


lemma diagonal_eq:
  assumes "length m = r" and "\<And>i. i < r \<Longrightarrow> length (m ! i) = c"
  shows "diagonal m = map (\<lambda>i. m ! i ! i) [0..<min r c]"
proof (cases m)
  case Nil
  with assms show ?thesis by (simp add: diagonal_def)
next
  case (Cons x xs)
  with assms(1) have "0 < r" by auto
  from assms(2)[OF this] Cons have "length x = c" by simp
  with Cons assms(1) show ?thesis by (simp add: diagonal_def)
qed

lemma diagonal_reduce:
  "diagonal (map (\<lambda>i. map (\<lambda>j. g (map (\<lambda>f. f ! i ! j) folds)) [0..<c]) [0..<r])
   = map (\<lambda>i. g (map (\<lambda>f. f ! i ! i) folds)) [0..<min r c]"
  by (subst diagonal_eq[where r = r and c = c]) auto

lemma reduce_axis0_A3_diag:
  assumes "reduce_axis0 g (A3 folds) s = (Inr a, s')" and "np_diag a t = (Inr b, t')"
  shows "b = A1 (diag_of_folds g folds)"
  using assms
  by (auto simp: reduce_axis0_def np_diag_def diag_of_folds_def diagonal_reduce prog_defs split: if_splits)


lemma keeps_ok: "keeps (ok x)"
  by (simp add: keeps_def ok_def)
lemma keeps_throw: "keeps (throw e)"
  by (simp add: keeps_def throw_def)
lemma keeps_draw: "keeps (draw el)"
  by (auto simp: keeps_def draw_def)
lemma keeps_bnd: "keeps m \<Longrightarrow> (\<And>x. keeps (f x)) \<Longrightarrow> keeps (bnd m f)"
  unfolding keeps_def bnd_def by (fastforce split: prod.splits sum.splits)
lemma keeps_seq: "keeps m \<Longrightarrow> keeps n \<Longrightarrow> keeps (seq m n)"
  by (simp add: seq_def keeps_bnd)
lemma keeps_run_if: "keeps m \<Longrightarrow> keeps (run_if b m)"
  by (simp add: run_if_def keeps_ok)
lemma keeps_block: "(\<And>m. m \<in> set ms \<Longrightarrow> keeps m) \<Longrightarrow> keeps (block ms)"
  by (induction ms) (auto intro: keeps_ok keeps_seq)

lemma keepsD: "keeps m \<Longrightarrow> m ax = (r, ax') \<Longrightarrow> el \<in> set ax \<Longrightarrow> el \<in> set ax'"
  by (auto simp: keeps_def)

lemma block_draws:
  "block ms ax = (Inr u, ax') \<Longrightarrow> draw el \<in> set ms \<Longrightarrow> (\<And>m. m \<in> set ms \<Longrightarrow> keeps m)
   \<Longrightarrow> el \<in> set ax'"
proof (induction ms arbitrary: ax)
  case Nil
  then show ?case by simp
next
  case (Cons m ms)
  from Cons.prems(1) obtain x ax1 where m: "m ax = (Inr x, ax1)" and rest: "block ms ax1 = (Inr u, ax')"
    by (auto elim!: seq_okE)
  have k: "keeps (block ms)" using Cons.prems(3) by (intro keeps_block) simp
  show ?case
  proof (cases "draw el = m")
    case True
    with m have "el \<in> set ax1" by (auto simp: draw_def)
    with keepsD[OF k rest] show ?thesis .
  next
    case False
    with Cons.prems(2) have "draw el \<in> set ms" by auto
    from Cons.IH[OF rest this] Cons.prems(3) show ?thesis by simp
  qed
qed

lemma keeps_np_min: "keeps (np_min a)"
  by (auto simp: np_min_def intro: keeps_ok keeps_throw split: list.splits)
lemma keeps_np_max: "keeps (np_max a)"
  by (auto simp: np_max_def intro: keeps_ok keeps_throw split: list.splits)
lemma keeps_get_arr: "keeps (get_arr d k)"
  by (auto simp: get_arr_def intro: keeps_ok keeps_throw split: option.splits mat_value.splits)
lemma keeps_mark_time_zero: "keeps (mark_time_zero t els)"
  unfolding mark_time_zero_def
  by (intro keeps_bnd keeps_np_min)
     (auto intro!: keeps_bnd keeps_np_max keeps_run_if keeps_block keeps_draw keeps_ok)
lemma keeps_label: "keeps (label_time_by_time decim xl yl)"
  unfolding label_time_by_time_def Let_def
  by (intro keeps_block) (auto intro!: keeps_draw keeps_ok split: option.splits)
lemma keeps_get_ylim: "keeps get_ylim"
  by (simp add: keeps_def get_ylim_def)
lemma keeps_highlight_clusters: "keeps (highlight_clusters cfg cs n)"
  by (induction cs arbitrary: n)
     (auto intro!: keeps_ok keeps_bnd keeps_get_ylim keeps_throw keeps_seq keeps_draw)

lemmas keeps_intros = keeps_ok keeps_throw keeps_draw keeps_bnd keeps_seq keeps_run_if
  keeps_get_arr keeps_mark_time_zero keeps_label keeps_highlight_clusters


subsection \<open>Arithmetic on square matrices\<close>


lemma collect_map_Inr: "collect (map (\<lambda>x. Inr (g x)) xs) = Inr (map g xs)"
  by (induction xs) auto

lemma broadcast_rows:
  assumes "length xs = length ys" and "\<And>x y. (x, y) \<in> set (zip xs ys) \<Longrightarrow> h x y = Inr (g x y)"
  shows "broadcast h xs ys = Inr (map2 g xs ys)"
proof -
  from assms have "collect (map2 h xs ys) = Inr (map2 g xs ys)"
    by (induction xs ys rule: list_induct2) auto
  with assms(1) show ?thesis by (simp add: broadcast_def)
qed

lemma squareD:
  "square n m \<Longrightarrow> length m = n"
  "square n m \<Longrightarrow> r \<in> set m \<Longrightarrow> length r = n"
  by (auto simp: square_def list_all_iff)

lemma np_binop_square:
  assumes "square n m" and "square n s"
  shows "np_binop f (A2 m) (A2 s) = ok (A2 (map2 (map2 f) m s))"
proof -
  have rows: "broadcast (\<lambda>x y. Inr (f x y)) r t = Inr (map2 f r t)" if "(r, t) \<in> set (zip m s)" for r t
  proof -
    from that have "r \<in> set m" "t \<in> set s" by (auto dest: set_zip_leftD set_zip_rightD)
    with assms have "length r = length t" by (simp add: squareD)
    then show ?thesis by (intro broadcast_rows) auto
  qed
  have "broadcast (broadcast (\<lambda>x y. Inr (f x y))) m s = Inr (map2 (map2 f) m s)"
  proof (rule broadcast_rows)
    show "length m = length s" using assms by (simp add: squareD(1))
  next
    fix r t
    assume "(r, t) \<in> set (zip m s)"
    then show "broadcast (\<lambda>x y. Inr (f x y)) r t = Inr (map2 f r t)" by (rule rows)
  qed
  then have "broadcast (broadcast (broadcast (\<lambda>x y. Inr (f x y)))) [m] [s] = Inr [map2 (map2 f) m s]"
    by (simp add: broadcast_def)
  then show ?thesis by (simp add: np_binop_def of_3d_def)
qed

lemma squeeze_rows_square: "square n m \<Longrightarrow> 2 \<le> n \<Longrightarrow> squeeze_rows m = A2 m"
  by (cases m; cases "tl m") (auto simp: square_def squeeze_rows_def squeeze_inner_def)

lemma diagonal_square: "square n m \<Longrightarrow> diagonal m = map (\<lambda>i. m ! i ! i) [0..<n]"
  by (subst diagonal_eq[where r = n and c = n]) (auto simp: square_def list_all_length)

lemma diagonal_map2:
  assumes "square n m" and "square n s"
  shows "diagonal (map2 (map2 f) m s) = map (\<lambda>i. f (m ! i ! i) (s ! i ! i)) [0..<n]"
  using assms
  by (subst diagonal_eq[where r = n and c = n]) (auto simp: square_def list_all_length)


text \<open>
  C10. Whenever time generalization is enabled, the single-subject and the grand-average
  time-course plots use only the diagonal of the score matrix. For one subject, the
  mean curve and the two edges of the min/max band hold, at time point \<open>i\<close>, the mean,
  minimum and maximum over the folds of the entry at train time \<open>i\<close> and test time \<open>i\<close>.
  For the grand average, the mean curve, the two standard-error curves and the two edges
  of the confidence band hold, at time point \<open>i\<close>, the entries \<open>(i, i)\<close> of the mean,
  mean minus and plus standard error, and lower and upper bound matrices. No entry off
  the diagonal enters a curve.
\<close>

theorem time_generalization_plots_use_diagonal:
  assumes single:
      "plot_time_by_time_decoding_scores time_pts (A3 folds) metric True decim w1 = (Inr fig1, w1')"
    and gavg: "plot_time_by_time_decoding_scores_gavg cfg d w2 = (Inr fig2, w2')"
    and tg: "decoding_time_generalization cfg"
    and n: "2 \<le> n"
    and dt: "d ''times'' = Some (Arr a_times)"
    and dm: "d ''mean'' = Some (Arr (A2 m))" "square n m"
    and ds: "d ''mean_se'' = Some (Arr (A2 se))" "square n se"
    and dl: "d ''mean_ci_lower'' = Some (Arr (A2 lo))" "square n lo"
    and du: "d ''mean_ci_upper'' = Some (Arr (A2 hi))" "square n hi"
  shows
    "(FillBetween time_pts (A1 (diag_of_folds smallest folds)) (A1 (diag_of_folds largest folds))
        ''range [min, max]'' \<in> set (elements fig1)
      \<and> Plot time_pts (A1 (diag_of_folds average folds)) (Some ''mean'') \<in> set (elements fig1))
     \<and>
     (Plot (squeeze a_times) (A1 (map (\<lambda>i. m ! i ! i) [0..<n])) (Some ''mean'')
        \<in> set (elements fig2)
      \<and> Plot (squeeze a_times) (A1 (map (\<lambda>i. m ! i ! i - se ! i ! i) [0..<n]))
          (Some ''mean +/- standard error'') \<in> set (elements fig2)
      \<and> Plot (squeeze a_times) (A1 (map (\<lambda>i. m ! i ! i + se ! i ! i) [0..<n])) None
          \<in> set (elements fig2)
      \<and> FillBetween (squeeze a_times) (A1 (map (\<lambda>i. lo ! i ! i) [0..<n]))
          (A1 (map (\<lambda>i. hi ! i ! i) [0..<n])) ''95% confidence interval''
          \<in> set (elements fig2))"
proof -
  have one:
    "FillBetween time_pts (A1 (diag_of_folds smallest folds)) (A1 (diag_of_folds largest folds))
        ''range [min, max]'' \<in> set (elements fig1)
      \<and> Plot time_pts (A1 (diag_of_folds average folds)) (Some ''mean'') \<in> set (elements fig1)"
    using single
    unfolding plot_time_by_time_decoding_scores_def mean_axis0_def max_axis0_def min_axis0_def
    apply (elim bnd_okE subplots_okE)
    apply (simp del: block.simps)
    apply (drule (1) reduce_axis0_A3_diag)+
    apply (auto elim!: block_draws intro!: keeps_intros simp del: block.simps)
    done
  have ga: "get_arr d ''times'' s = (Inr a_times, s)" "get_arr d ''mean'' s = (Inr (A2 m), s)"
    "get_arr d ''mean_se'' s = (Inr (A2 se), s)" "get_arr d ''mean_ci_lower'' s = (Inr (A2 lo), s)"
    "get_arr d ''mean_ci_upper'' s = (Inr (A2 hi), s)" for s :: world
    by (simp_all add: get_arr_def ok_def dt dm ds dl du)
  have avg:
    "Plot (squeeze a_times) (A1 (map (\<lambda>i. m ! i ! i) [0..<n])) (Some ''mean'')
        \<in> set (elements fig2)
      \<and> Plot (squeeze a_times) (A1 (map (\<lambda>i. m ! i ! i - se ! i ! i) [0..<n]))
          (Some ''mean +/- standard error'') \<in> set (elements fig2)
      \<and> Plot (squeeze a_times) (A1 (map (\<lambda>i. m ! i ! i + se ! i ! i) [0..<n])) None
          \<in> set (elements fig2)
      \<and> FillBetween (squeeze a_times) (A1 (map (\<lambda>i. lo ! i ! i) [0..<n]))
          (A1 (map (\<lambda>i. hi ! i ! i) [0..<n])) ''95% confidence interval''
          \<in> set (elements fig2)"
    using gavg unfolding plot_time_by_time_decoding_scores_gavg_def Let_def
    apply (elim bnd_okE subplots_okE)
    apply (clarsimp simp: ga dm ds dl du tg n squeeze_rows_square[where n = n] np_sub_def
         np_add_def np_binop_square[OF dm(2) ds(2)] np_diag_def diagonal_square[OF dm(2)]
         diagonal_square[OF dl(2)] diagonal_square[OF du(2)] diagonal_map2[OF dm(2) ds(2)] ok_def
         simp del: block.simps)
    apply (auto elim!: block_draws intro!: keeps_intros simp del: block.simps)
    done
  from one avg show ?thesis by (rule conjI)
qed

lemmas sample_tg_defs = sample_tg_cfg_def sample_tg_gavg_def sample_folds_def sample_defs

theorem time_generalization_plots_use_diagonal_witness:
  "\<exists>fig1 w1' fig2 w2'.
     plot_time_by_time_decoding_scores (A1 [0, 0.1]) (A3 sample_folds) ''roc_auc'' True 1 empty_world
       = (Inr fig1, w1')
     \<and> plot_time_by_time_decoding_scores_gavg sample_tg_cfg sample_tg_gavg empty_world = (Inr fig2, w2')
     \<and> decoding_time_generalization sample_tg_cfg
     \<and> FillBetween (A1 [0, 0.1]) (A1 [0.6, 0.6]) (A1 [0.8, 0.8]) ''range [min, max]'' \<in> set (elements fig1)
     \<and> Plot (A1 [0, 0.1]) (A1 [0.7, 0.7]) (Some ''mean'') \<in> set (elements fig1)
     \<and> Plot (A1 [0, 0.1]) (A1 [0.7, 0.7]) (Some ''mean'') \<in> set (elements fig2)
     \<and> Plot (A1 [0, 0.1]) (A1 [0.6, 0.6]) (Some ''mean +/- standard error'') \<in> set (elements fig2)
     \<and> Plot (A1 [0, 0.1]) (A1 [0.8, 0.8]) None \<in> set (elements fig2)
     \<and> FillBetween (A1 [0, 0.1]) (A1 [0.5, 0.5]) (A1 [0.9, 0.9]) ''95% confidence interval'' \<in> set (elements fig2)"
proof -
  obtain fig1 w1' where
    single: "plot_time_by_time_decoding_scores (A1 [0, 0.1]) (A3 sample_folds) ''roc_auc'' True 1 empty_world
             = (Inr fig1, w1')"
    by (simp add: plot_time_by_time_decoding_scores_def sample_tg_defs prog_defs np_defs draw_defs Let_def)
  obtain fig2 w2' where
    gavg: "plot_time_by_time_decoding_scores_gavg sample_tg_cfg sample_tg_gavg empty_world = (Inr fig2, w2')"
    by (simp add: plot_time_by_time_decoding_scores_gavg_def sample_tg_defs prog_defs np_defs draw_defs Let_def)
  have tg: "decoding_time_generalization sample_tg_cfg"
    by (simp add: sample_tg_defs)
  have sq: "square 2 [[0.7, 0.2], [0.3, 0.7]]" "square 2 [[0.1, 0.5], [0.5, 0.1]]"
    "square 2 [[0.5, 0], [0, 0.5]]" "square 2 [[0.9, 1], [1, 0.9]]"
    by (simp_all add: square_def)
  have two: "[0..<2] = [0, Suc 0]"
    by (simp add: upt_conv_Cons)
  note inst = time_generalization_plots_use_diagonal[OF single gavg tg order_refl, of "A2 [[0, 0.1]]"
      "[[0.7, 0.2], [0.3, 0.7]]" "[[0.1, 0.5], [0.5, 0.1]]" "[[0.5, 0], [0, 0.5]]" "[[0.9, 1], [1, 0.9]]"]
  have "(FillBetween (A1 [0, 0.1]) (A1 [0.6, 0.6]) (A1 [0.8, 0.8]) ''range [min, max]'' \<in> set (elements fig1)
     \<and> Plot (A1 [0, 0.1]) (A1 [0.7, 0.7]) (Some ''mean'') \<in> set (elements fig1))
     \<and> Plot (A1 [0, 0.1]) (A1 [0.7, 0.7]) (Some ''mean'') \<in> set (elements fig2)
     \<and> Plot (A1 [0, 0.1]) (A1 [0.6, 0.6]) (Some ''mean +/- standard error'') \<in> set (elements fig2)
     \<and> Plot (A1 [0, 0.1]) (A1 [0.8, 0.8]) None \<in> set (elements fig2)
     \<and> FillBetween (A1 [0, 0.1]) (A1 [0.5, 0.5]) (A1 [0.9, 0.9]) ''95% confidence interval'' \<in> set (elements fig2)"
    using inst sq
    by (simp add: sample_tg_gavg_def sample_folds_def diag_of_folds_def two smallest_def largest_def
        average_def squeeze_rows_def squeeze_inner_def)
  with single gavg tg show ?thesis by blast
qed

end
